theory Spec2Isabelle
  imports Main
begin

section \<open>The PatchTST getting-started notebook\<close>

text \<open>
  The source is one notebook, \<^verbatim>\<open>notebooks/hfdemo/patch_tst_getting_started.ipynb\<close>: a
  straight-line script whose cells assign parameters and call library functions.
  The model runs the cells in order over an explicit state (the three pseudo-random
  generators, the fitted state of the preprocessor, and the log of library calls made so
  far). Values the libraries return (data frames, datasets, models, trainers) are kept as
  the terms that say how they were built, since the libraries themselves are not part of
  the source. Cells are counted from 1, markdown cells included.
\<close>

subsection \<open>Python values passed as keyword arguments\<close>

text \<open>\<open>PyFloat m e\<close> is the decimal literal \<open>m * 10 ^ e\<close>, as written in the source.\<close>

datatype pyval =
    PyNone
  | PyBool bool
  | PyInt int
  | PyFloat int int
  | PyStr string
  | PyList "pyval list"

type_synonym kwargs = "(string \<times> pyval) list"

subsection \<open>Parameters (cells 3, 5 and 6)\<close>

definition SEED :: int where
  "SEED = 42"

definition dataset :: string where
  "dataset = ''ETTh1''"

definition num_workers :: int where
  "num_workers = 8"

definition batch_size :: int where
  "batch_size = 32"

definition context_length :: int where
  "context_length = 512"

definition forecast_horizon :: int where
  "forecast_horizon = 96"

definition patch_length :: int where
  "patch_length = 12"

definition dataset_path :: string where
  "dataset_path =
     ''https://raw.githubusercontent.com/zhouhaoyi/ETDataset/main/ETT-small/'' @ dataset @ ''.csv''"

definition timestamp_column :: string where
  "timestamp_column = ''date''"

definition id_columns :: "string list" where
  "id_columns = []"

definition forecast_columns :: "string list" where
  "forecast_columns = [''HUFL'', ''HULL'', ''MUFL'', ''MULL'', ''LUFL'', ''LULL'', ''OT'']"

text \<open>\<^verbatim>\<open>train_start_index = None  # None indicates beginning of dataset\<close>\<close>

definition train_start_index :: "int option" where
  "train_start_index = None"

definition train_end_index :: int where
  "train_end_index = 12 * 30 * 24"

definition valid_start_index :: int where
  "valid_start_index = 12 * 30 * 24 - context_length"

definition valid_end_index :: int where
  "valid_end_index = 12 * 30 * 24 + 4 * 30 * 24"

definition test_start_index :: int where
  "test_start_index = 12 * 30 * 24 + 4 * 30 * 24 - context_length"

definition test_end_index :: int where
  "test_end_index = 12 * 30 * 24 + 8 * 30 * 24"

text \<open>
  The keyword arguments of the two \<^verbatim>\<open>TrainingArguments(...)\<close> calls (cells 11 and 14)
  and of \<^verbatim>\<open>EarlyStoppingCallback(...)\<close> (cell 14).
\<close>

definition inference_train_args :: kwargs where
  "inference_train_args =
     [(''output_dir'', PyStr ''./checkpoint/patchtst/direct/train/output/''),
      (''label_names'', PyList [PyStr ''future_values''])]"

definition scratch_train_args :: kwargs where
  "scratch_train_args =
     [(''output_dir'', PyStr ''./checkpoint/patchtst/direct/train/output/''),
      (''overwrite_output_dir'', PyBool True),
      (''learning_rate'', PyFloat 1 (- 4)),
      (''num_train_epochs'', PyInt 100),
      (''do_eval'', PyBool True),
      (''evaluation_strategy'', PyStr ''epoch''),
      (''per_device_train_batch_size'', PyInt batch_size),
      (''per_device_eval_batch_size'', PyInt batch_size),
      (''dataloader_num_workers'', PyInt 1),
      (''save_strategy'', PyStr ''epoch''),
      (''logging_strategy'', PyStr ''epoch''),
      (''save_total_limit'', PyInt 3),
      (''logging_dir'', PyStr ''./checkpoint/patchtst/direct/train/logs/''),
      (''load_best_model_at_end'', PyBool True),
      (''metric_for_best_model'', PyStr ''eval_loss''),
      (''greater_is_better'', PyBool False),
      (''label_names'', PyList [PyStr ''future_values''])]"

definition early_stopping_args :: kwargs where
  "early_stopping_args =
     [(''early_stopping_patience'', PyInt 5),
      (''early_stopping_threshold'', PyFloat 1 (- 3))]"

subsection \<open>Values returned by the libraries\<close>

text \<open>
  The arguments of \<^verbatim>\<open>TimeSeriesPreprocessor(...)\<close>. The object's fitted state (what
  \<^verbatim>\<open>tsp.train\<close> was last called with) lives in the program state below.
\<close>

record tsp_args =
  tsp_timestamp_column :: string
  tsp_id_columns :: "string list"
  tsp_target_columns :: "string list"
  tsp_scaling :: bool

text \<open>
  A data frame is known by how it was obtained: read from a CSV file, selected from
  another frame by \<^verbatim>\<open>select_by_index\<close>, or returned by \<^verbatim>\<open>tsp.preprocess\<close>. The
  last records the preprocessor's arguments and the frame it had been fitted on when
  \<^verbatim>\<open>preprocess\<close> was called (\<open>None\<close>: it had not been fitted).
\<close>

datatype frame =
    ReadCsv string "string list"
  | SelectByIndex frame "string list" "int option" "int option"
  | Preprocessed tsp_args "frame option" frame

text \<open>The arguments of \<^verbatim>\<open>ForecastDFDataset(...)\<close>.\<close>

record dataset_args =
  ds_data :: frame
  ds_id_columns :: "string list"
  ds_target_columns :: "string list"
  ds_context_length :: int
  ds_prediction_length :: int

text \<open>The arguments of \<^verbatim>\<open>PatchTSTConfig(...)\<close>, in the order of cell 13.\<close>

record patchtst_config =
  cfg_do_mask_input :: bool
  cfg_context_length :: int
  cfg_patch_length :: int
  cfg_num_input_channels :: int
  cfg_patch_stride :: int
  cfg_prediction_length :: int
  cfg_d_model :: int
  cfg_num_attention_heads :: int
  cfg_num_hidden_layers :: int
  cfg_ffn_dim :: int
  cfg_dropout :: pyval
  cfg_head_dropout :: pyval
  cfg_pooling_type :: pyval
  cfg_channel_attention :: bool
  cfg_scaling :: pyval
  cfg_loss :: string
  cfg_pre_norm :: bool
  cfg_norm_type :: string

text \<open>
  The state of a pseudo-random generator: either it still holds whatever the process
  started with (\<open>Entropy k\<close>, different from run to run), or it was set by a seed.
\<close>

datatype rng = Entropy nat | Seeded int

text \<open>
  A model is loaded from the hub by name or built from a configuration; building draws
  the initial weights from torch's global generator, whose state is recorded.
\<close>

datatype model = Pretrained string | FromConfig patchtst_config rng

record trainer_args =
  tr_model :: model
  tr_args :: kwargs
  tr_train_dataset :: "dataset_args option"
  tr_eval_dataset :: "dataset_args option"
  tr_callbacks :: "kwargs list"

subsection \<open>The log of library calls\<close>

text \<open>
  The import cell groups its imports under the comments \<^verbatim>\<open># Standard\<close>,
  \<^verbatim>\<open># Third Party\<close> and \<^verbatim>\<open># First Party\<close>. The group is kept with each
  import as the cell writes it; it is a comment, and no property below rests on it.
\<close>

datatype origin = Standard | ThirdParty | FirstParty

text \<open>The second-level markdown headings of the notebook divide it into four parts.\<close>

datatype heading =
    DirectForecastingExample
  | LoadAndPrepareDatasets
  | TestingPretrained
  | TrainFromScratch

text \<open>
  One constructor for each kind of statement with an effect. \<open>Define\<close> stands for a
  \<^verbatim>\<open>def\<close> or \<^verbatim>\<open>class\<close> statement; the notebook has none. Calls that draw
  pseudo-random numbers record the generator states they start from.
\<close>

datatype event =
    ImportModule origin string string
  | FromImport origin string "string list"
  | Define string
  | TorchManualSeed int
  | RandomSeed int
  | NumpyRandomSeed int
  | Print string
  | PrintResult
  | PdReadCsv string "string list"
  | CallSelectByIndex frame "string list" "int option" "int option"
  | NewTimeSeriesPreprocessor tsp_args
  | TspTrain frame
  | TspPreprocess frame
  | NewForecastDFDataset dataset_args
  | FromPretrained string
  | NewPatchTSTConfig patchtst_config
  | NewPatchTSTForPrediction patchtst_config rng
  | NewTrainingArguments kwargs
  | NewEarlyStoppingCallback kwargs
  | NewTrainer trainer_args
  | TrainerTrain trainer_args "rng \<times> rng \<times> rng"
  | TrainerEvaluate trainer_args dataset_args
  | TrainerPredict trainer_args dataset_args
  | InspectPredictionsShape trainer_args dataset_args

record world =
  torch_rng :: rng
  python_rng :: rng
  numpy_rng :: rng
  tsp_fitted :: "frame option"
  events :: "(heading \<times> event) list"

text \<open>A fresh kernel: nothing logged, no preprocessor fitted, generators unseeded.\<close>

definition fresh_kernel :: "nat \<Rightarrow> nat \<Rightarrow> nat \<Rightarrow> world" where
  "fresh_kernel t p n =
     \<lparr>torch_rng = Entropy t, python_rng = Entropy p, numpy_rng = Entropy n,
      tsp_fitted = None, events = []\<rparr>"

definition emit :: "heading \<Rightarrow> event \<Rightarrow> world \<Rightarrow> world" where
  "emit h e w = w\<lparr>events := events w @ [(h, e)]\<rparr>"

subsection \<open>The library calls the notebook makes\<close>

definition torch_manual_seed :: "heading \<Rightarrow> int \<Rightarrow> world \<Rightarrow> world" where
  "torch_manual_seed h s w = emit h (TorchManualSeed s) (w\<lparr>torch_rng := Seeded s\<rparr>)"

definition random_seed :: "heading \<Rightarrow> int \<Rightarrow> world \<Rightarrow> world" where
  "random_seed h s w = emit h (RandomSeed s) (w\<lparr>python_rng := Seeded s\<rparr>)"

definition np_random_seed :: "heading \<Rightarrow> int \<Rightarrow> world \<Rightarrow> world" where
  "np_random_seed h s w = emit h (NumpyRandomSeed s) (w\<lparr>numpy_rng := Seeded s\<rparr>)"

definition pd_read_csv :: "heading \<Rightarrow> string \<Rightarrow> string list \<Rightarrow> world \<Rightarrow> frame \<times> world" where
  "pd_read_csv h path parse_dates w =
     (ReadCsv path parse_dates, emit h (PdReadCsv path parse_dates) w)"

definition select_by_index ::
  "heading \<Rightarrow> frame \<Rightarrow> string list \<Rightarrow> int option \<Rightarrow> int option \<Rightarrow> world \<Rightarrow> frame \<times> world" where
  "select_by_index h df ids start_index end_index w =
     (SelectByIndex df ids start_index end_index,
      emit h (CallSelectByIndex df ids start_index end_index) w)"

definition TimeSeriesPreprocessor :: "heading \<Rightarrow> tsp_args \<Rightarrow> world \<Rightarrow> tsp_args \<times> world" where
  "TimeSeriesPreprocessor h a w =
     (a, emit h (NewTimeSeriesPreprocessor a) (w\<lparr>tsp_fitted := None\<rparr>))"

definition tsp_train :: "heading \<Rightarrow> tsp_args \<Rightarrow> frame \<Rightarrow> world \<Rightarrow> world" where
  "tsp_train h a df w = emit h (TspTrain df) (w\<lparr>tsp_fitted := Some df\<rparr>)"

definition tsp_preprocess :: "heading \<Rightarrow> tsp_args \<Rightarrow> frame \<Rightarrow> world \<Rightarrow> frame \<times> world" where
  "tsp_preprocess h a df w = (Preprocessed a (tsp_fitted w) df, emit h (TspPreprocess df) w)"

definition ForecastDFDataset ::
  "heading \<Rightarrow> dataset_args \<Rightarrow> world \<Rightarrow> dataset_args \<times> world" where
  "ForecastDFDataset h a w = (a, emit h (NewForecastDFDataset a) w)"

definition from_pretrained :: "heading \<Rightarrow> string \<Rightarrow> world \<Rightarrow> model \<times> world" where
  "from_pretrained h name w = (Pretrained name, emit h (FromPretrained name) w)"

definition PatchTSTConfig ::
  "heading \<Rightarrow> patchtst_config \<Rightarrow> world \<Rightarrow> patchtst_config \<times> world" where
  "PatchTSTConfig h c w = (c, emit h (NewPatchTSTConfig c) w)"

definition PatchTSTForPrediction ::
  "heading \<Rightarrow> patchtst_config \<Rightarrow> world \<Rightarrow> model \<times> world" where
  "PatchTSTForPrediction h c w =
     (FromConfig c (torch_rng w), emit h (NewPatchTSTForPrediction c (torch_rng w)) w)"

definition TrainingArguments :: "heading \<Rightarrow> kwargs \<Rightarrow> world \<Rightarrow> kwargs \<times> world" where
  "TrainingArguments h a w = (a, emit h (NewTrainingArguments a) w)"

definition EarlyStoppingCallback :: "heading \<Rightarrow> kwargs \<Rightarrow> world \<Rightarrow> kwargs \<times> world" where
  "EarlyStoppingCallback h a w = (a, emit h (NewEarlyStoppingCallback a) w)"

definition Trainer :: "heading \<Rightarrow> trainer_args \<Rightarrow> world \<Rightarrow> trainer_args \<times> world" where
  "Trainer h a w = (a, emit h (NewTrainer a) w)"

definition trainer_train :: "heading \<Rightarrow> trainer_args \<Rightarrow> world \<Rightarrow> world" where
  "trainer_train h tr w =
     emit h (TrainerTrain tr (torch_rng w, python_rng w, numpy_rng w)) w"

definition trainer_evaluate :: "heading \<Rightarrow> trainer_args \<Rightarrow> dataset_args \<Rightarrow> world \<Rightarrow> world" where
  "trainer_evaluate h tr ds w = emit h (TrainerEvaluate tr ds) w"

definition trainer_predict ::
  "heading \<Rightarrow> trainer_args \<Rightarrow> dataset_args \<Rightarrow> world \<Rightarrow> (trainer_args \<times> dataset_args) \<times> world" where
  "trainer_predict h tr ds w = ((tr, ds), emit h (TrainerPredict tr ds) w)"

definition predictions_0_shape ::
  "heading \<Rightarrow> trainer_args \<times> dataset_args \<Rightarrow> world \<Rightarrow> world" where
  "predictions_0_shape h out w = emit h (InspectPredictionsShape (fst out) (snd out)) w"

subsection \<open>The cells, grouped by heading\<close>

text \<open>Cells 2 and 3, under the heading \<^verbatim>\<open>## Direct forecasting example\<close>: the imports and the seeds.\<close>

definition direct_forecasting_example :: "world \<Rightarrow> world" where
  "direct_forecasting_example w0 =
     (let h = DirectForecastingExample;
          w = emit h (ImportModule Standard ''random'' ''random'') w0;
          w = emit h (ImportModule Standard ''numpy'' ''np'') w;
          w = emit h (ImportModule Standard ''pandas'' ''pd'') w;
          w = emit h (ImportModule Standard ''torch'' ''torch'') w;
          w = emit h (FromImport ThirdParty ''transformers''
                [''EarlyStoppingCallback'', ''PatchTSTConfig'', ''PatchTSTForPrediction'',
                 ''Trainer'', ''TrainingArguments'']) w;
          w = emit h (FromImport FirstParty ''tsfm_public.toolkit.dataset''
                [''ForecastDFDataset'']) w;
          w = emit h (FromImport FirstParty ''tsfm_public.toolkit.time_series_preprocessor''
                [''TimeSeriesPreprocessor'']) w;
          w = emit h (FromImport FirstParty ''tsfm_public.toolkit.util''
                [''select_by_index'']) w;
          w = torch_manual_seed h SEED w;
          w = random_seed h SEED w;
          w = np_random_seed h SEED w
      in w)"

text \<open>The variables bound by cells 7 and 8.\<close>

record prepared =
  data :: frame
  train_data :: frame
  valid_data :: frame
  test_data :: frame
  tsp :: tsp_args
  train_dataset :: dataset_args
  valid_dataset :: dataset_args
  test_dataset :: dataset_args

text \<open>
  Cells 6 to 8, under \<^verbatim>\<open>## Load and prepare datasets\<close>. The assignments of cells 5
  and 6 are the parameters above.
\<close>

definition load_and_prepare_datasets :: "world \<Rightarrow> prepared \<times> world" where
  "load_and_prepare_datasets w0 =
     (let h = LoadAndPrepareDatasets;
          w = emit h (Print (''Loading target dataset: '' @ dataset)) w0;
          (d, w) = pd_read_csv h dataset_path [timestamp_column] w;
          (tr, w) = select_by_index h d id_columns train_start_index (Some train_end_index) w;
          (va, w) = select_by_index h d id_columns (Some valid_start_index) (Some valid_end_index) w;
          (te, w) = select_by_index h d id_columns (Some test_start_index) (Some test_end_index) w;
          (t, w) = TimeSeriesPreprocessor h
                     \<lparr>tsp_timestamp_column = timestamp_column, tsp_id_columns = id_columns,
                      tsp_target_columns = forecast_columns, tsp_scaling = True\<rparr> w;
          w = tsp_train h t tr w;
          (ptr, w) = tsp_preprocess h t tr w;
          (dtr, w) = ForecastDFDataset h
                     \<lparr>ds_data = ptr, ds_id_columns = id_columns,
                      ds_target_columns = forecast_columns,
                      ds_context_length = context_length,
                      ds_prediction_length = forecast_horizon\<rparr> w;
          (pva, w) = tsp_preprocess h t va w;
          (dva, w) = ForecastDFDataset h
                     \<lparr>ds_data = pva, ds_id_columns = id_columns,
                      ds_target_columns = forecast_columns,
                      ds_context_length = context_length,
                      ds_prediction_length = forecast_horizon\<rparr> w;
          (pte, w) = tsp_preprocess h t te w;
          (dte, w) = ForecastDFDataset h
                     \<lparr>ds_data = pte, ds_id_columns = id_columns,
                      ds_target_columns = forecast_columns,
                      ds_context_length = context_length,
                      ds_prediction_length = forecast_horizon\<rparr> w
      in (\<lparr>data = d, train_data = tr, valid_data = va, test_data = te, tsp = t,
           train_dataset = dtr, valid_dataset = dva, test_dataset = dte\<rparr>, w))"

text \<open>
  Cells 10 and 11, under \<^verbatim>\<open>## Testing with a `PatchTST` model that was trained on the
  training part of the `ETTh1` data\<close>: the pretrained model, evaluated on the test dataset.
\<close>

definition testing_pretrained :: "prepared \<Rightarrow> world \<Rightarrow> world" where
  "testing_pretrained v w0 =
     (let h = TestingPretrained;
          w = emit h (Print ''Loading pretrained model'') w0;
          (inference_forecast_model, w) =
             from_pretrained h ''ibm-granite/granite-timeseries-patchtst'' w;
          w = emit h (Print ''Done'') w;
          (train_args, w) = TrainingArguments h inference_train_args w;
          (inference_forecast_trainer, w) = Trainer h
             \<lparr>tr_model = inference_forecast_model, tr_args = train_args,
              tr_train_dataset = None, tr_eval_dataset = None, tr_callbacks = []\<rparr> w;
          w = emit h (Print ([CHR 0x0A, CHR 0x0A] @ ''Doing testing on Etth1/test data'')) w;
          w = trainer_evaluate h inference_forecast_trainer (test_dataset v) w;
          w = emit h PrintResult w
      in w)"

text \<open>The variables bound by cells 13 to 17.\<close>

record scratch =
  config :: patchtst_config
  model :: model
  trainer :: trainer_args
  predict_output :: "trainer_args \<times> dataset_args"

text \<open>
  Cells 13 to 18, under \<^verbatim>\<open>## If we want to train from scratch\<close> (the heading
  \<^verbatim>\<open>#### Sanity check: Compute number of forecasting channels\<close> before cell 17 is of a
  lower level and opens no new part).
\<close>

definition train_from_scratch :: "prepared \<Rightarrow> world \<Rightarrow> scratch \<times> world" where
  "train_from_scratch v w0 =
     (let h = TrainFromScratch;
          (c, w) = PatchTSTConfig h
             \<lparr>cfg_do_mask_input = False,
              cfg_context_length = context_length,
              cfg_patch_length = patch_length,
              cfg_num_input_channels = int (length forecast_columns),
              cfg_patch_stride = patch_length,
              cfg_prediction_length = forecast_horizon,
              cfg_d_model = 128,
              cfg_num_attention_heads = 16,
              cfg_num_hidden_layers = 3,
              cfg_ffn_dim = 512,
              cfg_dropout = PyFloat 2 (- 1),
              cfg_head_dropout = PyFloat 2 (- 1),
              cfg_pooling_type = PyNone,
              cfg_channel_attention = False,
              cfg_scaling = PyStr ''std'',
              cfg_loss = ''mse'',
              cfg_pre_norm = True,
              cfg_norm_type = ''batchnorm''\<rparr> w0;
          (m, w) = PatchTSTForPrediction h c w;
          (train_args, w) = TrainingArguments h scratch_train_args w;
          (early_stopping_callback, w) = EarlyStoppingCallback h early_stopping_args w;
          (t, w) = Trainer h
             \<lparr>tr_model = m, tr_args = train_args,
              tr_train_dataset = Some (train_dataset v),
              tr_eval_dataset = Some (valid_dataset v),
              tr_callbacks = [early_stopping_callback]\<rparr> w;
          w = emit h (Print ([CHR 0x0A, CHR 0x0A] @ ''Doing forecasting training on Etth1/train'')) w;
          w = trainer_train h t w;
          w = trainer_evaluate h t (test_dataset v) w;
          (out, w) = trainer_predict h t (test_dataset v) w;
          w = predictions_0_shape h out w
      in (\<lparr>config = c, model = m, trainer = t, predict_output = out\<rparr>, w))"

text \<open>The notebook, run from top to bottom.\<close>

definition notebook :: "world \<Rightarrow> (prepared \<times> scratch) \<times> world" where
  "notebook w0 =
     (let w = direct_forecasting_example w0;
          (v, w) = load_and_prepare_datasets w;
          w = testing_pretrained v w;
          (s, w) = train_from_scratch v w
      in ((v, s), w))"

subsection \<open>Reading a run of the notebook\<close>

definition notebook_events :: "nat \<Rightarrow> nat \<Rightarrow> nat \<Rightarrow> (heading \<times> event) list" where
  "notebook_events t p n = events (snd (notebook (fresh_kernel t p n)))"

definition notebook_calls :: "nat \<Rightarrow> nat \<Rightarrow> nat \<Rightarrow> event list" where
  "notebook_calls t p n = map snd (events (snd (notebook (fresh_kernel t p n))))"

definition notebook_vars :: "nat \<Rightarrow> nat \<Rightarrow> nat \<Rightarrow> prepared" where
  "notebook_vars t p n = fst (fst (notebook (fresh_kernel t p n)))"

definition notebook_scratch_vars :: "nat \<Rightarrow> nat \<Rightarrow> nat \<Rightarrow> scratch" where
  "notebook_scratch_vars t p n = snd (fst (notebook (fresh_kernel t p n)))"

text \<open>Projections of the log onto the calls a property is about.\<close>

fun select_args :: "event \<Rightarrow> (frame \<times> string list \<times> int option \<times> int option) option" where
  "select_args (CallSelectByIndex df ids s e) = Some (df, ids, s, e)"
| "select_args _ = None"

fun tsp_step :: "event \<Rightarrow> event option" where
  "tsp_step (TspTrain f) = Some (TspTrain f)"
| "tsp_step (TspPreprocess f) = Some (TspPreprocess f)"
| "tsp_step (NewForecastDFDataset d) = Some (NewForecastDFDataset d)"
| "tsp_step _ = None"

fun fitted_frame :: "event \<Rightarrow> frame option" where
  "fitted_frame (TspTrain f) = Some f"
| "fitted_frame _ = None"

fun built_dataset :: "event \<Rightarrow> dataset_args option" where
  "built_dataset (NewForecastDFDataset d) = Some d"
| "built_dataset _ = None"

fun built_config :: "event \<Rightarrow> patchtst_config option" where
  "built_config (NewPatchTSTConfig c) = Some c"
| "built_config _ = None"

fun built_model :: "event \<Rightarrow> (patchtst_config \<times> rng) option" where
  "built_model (NewPatchTSTForPrediction c r) = Some (c, r)"
| "built_model _ = None"

fun predicted :: "event \<Rightarrow> (trainer_args \<times> dataset_args) option" where
  "predicted (TrainerPredict tr ds) = Some (tr, ds)"
| "predicted _ = None"







fun seeding :: "event \<Rightarrow> bool" where
  "seeding (TorchManualSeed s) = True"
| "seeding (RandomSeed s) = True"
| "seeding (NumpyRandomSeed s) = True"
| "seeding _ = False"

text \<open>Data loading, dataset construction, model instantiation and everything after.\<close>

fun loads_or_builds :: "event \<Rightarrow> bool" where
  "loads_or_builds (ImportModule org m a) = False"
| "loads_or_builds (FromImport org m ns) = False"
| "loads_or_builds (Define nm) = False"
| "loads_or_builds (TorchManualSeed s) = False"
| "loads_or_builds (RandomSeed s) = False"
| "loads_or_builds (NumpyRandomSeed s) = False"
| "loads_or_builds (Print s) = False"
| "loads_or_builds PrintResult = False"
| "loads_or_builds _ = True"

text \<open>The calls that draw pseudo-random numbers, with the generator states they saw.\<close>

fun drawn_from :: "event \<Rightarrow> rng list option" where
  "drawn_from (NewPatchTSTForPrediction c r) = Some [r]"
| "drawn_from (TrainerTrain tr rs) = Some [fst rs, fst (snd rs), snd (snd rs)]"
| "drawn_from _ = None"

subsection \<open>The steps of the program\<close>

datatype step =
    ReadCSV
  | SplitIndices
  | InstantiatePreprocessor
  | BuildDatasetWrappers
  | InstantiateModel
  | ConfigureTrainingLoop
  | Train
  | Evaluate
  | InspectOutputShapes

fun step_of :: "event \<Rightarrow> step option" where
  "step_of (PdReadCsv path ds) = Some ReadCSV"
| "step_of (CallSelectByIndex df ids s e) = Some SplitIndices"
| "step_of (NewTimeSeriesPreprocessor a) = Some InstantiatePreprocessor"
| "step_of (NewForecastDFDataset d) = Some BuildDatasetWrappers"
| "step_of (FromPretrained nm) = Some InstantiateModel"
| "step_of (NewPatchTSTForPrediction c r) = Some InstantiateModel"
| "step_of (NewTrainingArguments a) = Some ConfigureTrainingLoop"
| "step_of (NewTrainer tr) = Some ConfigureTrainingLoop"
| "step_of (TrainerTrain tr rs) = Some Train"
| "step_of (TrainerEvaluate tr ds) = Some Evaluate"
| "step_of (InspectPredictionsShape tr ds) = Some InspectOutputShapes"
| "step_of _ = None"

fun step_rank :: "step \<Rightarrow> nat" where
  "step_rank ReadCSV = 0"
| "step_rank SplitIndices = 1"
| "step_rank InstantiatePreprocessor = 2"
| "step_rank BuildDatasetWrappers = 3"
| "step_rank InstantiateModel = 4"
| "step_rank ConfigureTrainingLoop = 5"
| "step_rank Train = 6"
| "step_rank Evaluate = 7"
| "step_rank InspectOutputShapes = 8"

text \<open>
  The notebook has two paths through its last two parts: the pretrained model
  (\<open>TestingPretrained\<close>) and the model trained from scratch (\<open>TrainFromScratch\<close>). Both
  share the first two parts.
\<close>

definition on_path :: "heading \<Rightarrow> heading \<Rightarrow> bool" where
  "on_path p h \<longleftrightarrow> h = DirectForecastingExample \<or> h = LoadAndPrepareDatasets \<or> h = p"

definition path_steps :: "heading \<Rightarrow> (heading \<times> event) list \<Rightarrow> step list" where
  "path_steps p evs = List.map_filter step_of (map snd (filter (\<lambda>x. on_path p (fst x)) evs))"

subsection \<open>Index ranges\<close>

text \<open>
  The rows a \<open>(start_index, end_index)\<close> pair delineates: positions from the start
  (\<open>None\<close> indicates the beginning of the dataset, says the notebook) up to but excluding
  the end.
\<close>

definition index_span :: "int option \<Rightarrow> int \<Rightarrow> int \<times> int" where
  "index_span start_index end_index =
     ((case start_index of None \<Rightarrow> 0 | Some s \<Rightarrow> s), end_index)"

definition span_rows :: "int \<times> int \<Rightarrow> int set" where
  "span_rows sp = {fst sp ..< snd sp}"

definition index_rows :: "int option \<Rightarrow> int \<Rightarrow> int set" where
  "index_rows start_index end_index = span_rows (index_span start_index end_index)"

subsection \<open>What the first-party library does with the frames\<close>

text \<open>
  Modelled from the spec: \<^verbatim>\<open>select_by_index\<close> (module \<^verbatim>\<open>tsfm_public.toolkit.util\<close>) is
  not among the sources. The spec calls it index slicing, and the notebook describes its
  arguments as the start and end indices in the loaded data which delineate a split.
  \<open>frame_span\<close> gives the positions, in the loaded CSV, of the rows a frame holds when the
  file is long enough for the indices: a selection by non-negative indices, without id
  columns, from the loaded file; preprocessing keeps the rows. It is \<open>None\<close> for the other
  frames (the whole file, whose length the source does not fix; grouped, nested, open-ended
  or negative selections).
\<close>

fun frame_span :: "frame \<Rightarrow> (int \<times> int) option" where
  "frame_span (ReadCsv path ds) = None"
| "frame_span (SelectByIndex (ReadCsv path ds) ids s (Some e)) =
     (if ids = [] \<and> 0 \<le> fst (index_span s e) then Some (index_span s e) else None)"
| "frame_span (SelectByIndex f ids s e) = None"
| "frame_span (Preprocessed a st f) = frame_span f"

definition frame_rows :: "frame \<Rightarrow> int set option" where
  "frame_rows f = map_option span_rows (frame_span f)"

definition frame_length :: "frame \<Rightarrow> int option" where
  "frame_length f = map_option (\<lambda>sp. snd sp - fst sp) (frame_span f)"

definition in_frame :: "int \<Rightarrow> frame \<Rightarrow> bool" where
  "in_frame i f = (case frame_span f of None \<Rightarrow> False | Some sp \<Rightarrow> fst sp \<le> i \<and> i < snd sp)"

definition shared_rows :: "frame \<Rightarrow> frame \<Rightarrow> int set option" where
  "shared_rows f g =
     (case frame_rows f of None \<Rightarrow> None
      | Some A \<Rightarrow> (case frame_rows g of None \<Rightarrow> None | Some B \<Rightarrow> Some (A \<inter> B)))"

text \<open>
  Modelled from the spec: \<^verbatim>\<open>ForecastDFDataset\<close> (module \<^verbatim>\<open>tsfm_public.toolkit.dataset\<close>)
  is not among the sources. By the glossary, the context length is the number of
  historical time steps provided as model input and the forecast horizon the number of
  future time steps the model is asked to predict. A window is \<open>c\<close> consecutive rows of
  context followed by \<open>h\<close> rows of targets; a frame yields one window for every position at
  which both fit. Each window is given as the span of its context and the span of its
  targets.
\<close>

definition forecast_windows ::
  "int \<Rightarrow> int \<Rightarrow> int \<times> int \<Rightarrow> ((int \<times> int) \<times> (int \<times> int)) list" where
  "forecast_windows c h sp =
     map (\<lambda>k. ((fst sp + int k, fst sp + int k + c),
                (fst sp + int k + c, fst sp + int k + c + h)))
       [0 ..< nat (snd sp - fst sp - (c + h) + 1)]"

definition dataset_windows :: "dataset_args \<Rightarrow> ((int \<times> int) \<times> (int \<times> int)) list option" where
  "dataset_windows d =
     map_option (forecast_windows (ds_context_length d) (ds_prediction_length d))
       (frame_span (ds_data d))"

definition target_rows :: "((int \<times> int) \<times> (int \<times> int)) list \<Rightarrow> int set" where
  "target_rows ws = \<Union> (set (map (\<lambda>w. span_rows (snd w)) ws))"

text \<open>The rows a scaler fitted on \<open>f\<close> has seen that are forecast targets of dataset \<open>d\<close>.\<close>

definition fitted_targets :: "frame \<Rightarrow> dataset_args \<Rightarrow> int set option" where
  "fitted_targets f d =
     (case frame_rows f of None \<Rightarrow> None
      | Some A \<Rightarrow> (case dataset_windows d of None \<Rightarrow> None
                   | Some ws \<Rightarrow> Some (A \<inter> target_rows ws)))"

text \<open>
  Modelled from the spec: a sample of a dataset is a window of \<open>context_length\<close> past
  steps and \<open>prediction_length\<close> future steps of every target column; a model built from a
  configuration takes \<open>context_length\<close> steps of \<open>num_input_channels\<close> channels and predicts
  \<open>prediction_length\<close> steps of each. The shapes are (steps, channels) of input and output.
\<close>

definition sample_shape :: "dataset_args \<Rightarrow> (int \<times> int) \<times> (int \<times> int)" where
  "sample_shape d =
     ((ds_context_length d, int (length (ds_target_columns d))),
      (ds_prediction_length d, int (length (ds_target_columns d))))"

definition model_shape :: "patchtst_config \<Rightarrow> (int \<times> int) \<times> (int \<times> int)" where
  "model_shape c =
     ((cfg_context_length c, cfg_num_input_channels c),
      (cfg_prediction_length c, cfg_num_input_channels c))"

text \<open>
  Modelled from the spec: \<^verbatim>\<open>trainer.predict(ds).predictions[0]\<close> holds one forecast for
  every window of \<open>ds\<close>, each of the model's \<open>prediction_length\<close> steps by
  \<open>num_input_channels\<close> channels. The configuration of a model loaded by name is not in
  the source.
\<close>

definition predictions_shape :: "trainer_args \<Rightarrow> dataset_args \<Rightarrow> (int \<times> int \<times> int) option" where
  "predictions_shape tr ds =
     (case tr_model tr of
        Pretrained nm \<Rightarrow> None
      | FromConfig c r \<Rightarrow>
          (case dataset_windows ds of
             None \<Rightarrow> None
           | Some ws \<Rightarrow>
               Some (int (length ws), cfg_prediction_length c, cfg_num_input_channels c)))"

fun inspected :: "event \<Rightarrow> (int \<times> int \<times> int) option option" where
  "inspected (InspectPredictionsShape tr ds) = Some (predictions_shape tr ds)"
| "inspected _ = None"

subsection \<open>Outputs stored in the notebook\<close>

text \<open>
  Cell 7 ends with \<^verbatim>\<open>tsp.train(train_data)\<close>, whose stored output shows the fitted
  scaler (\<^verbatim>\<open>scaler_dict["0"]\<close>); its floating-point statistics are left out here.
\<close>

record scaler_output =
  feature_names_in :: "string list"
  n_features_in :: int
  n_samples_seen :: int
  with_mean :: bool
  with_std :: bool

definition scaler_dict_0 :: scaler_output where
  "scaler_dict_0 =
     \<lparr>feature_names_in = [''HUFL'', ''HULL'', ''MUFL'', ''MULL'', ''LUFL'', ''LULL'', ''OT''],
      n_features_in = 7,
      n_samples_seen = 8640,
      with_mean = True,
      with_std = True\<rparr>"

text \<open>The stored output of cell 18, \<^verbatim>\<open>output.predictions[0].shape\<close>.\<close>

definition predictions_0_shape_output :: "int \<times> int \<times> int" where
  "predictions_0_shape_output = (2785, 96, 7)"


section \<open>Properties\<close>

lemmas param_defs = SEED_def dataset_def num_workers_def batch_size_def context_length_def
  forecast_horizon_def patch_length_def dataset_path_def timestamp_column_def id_columns_def
  forecast_columns_def train_start_index_def train_end_index_def valid_start_index_def
  valid_end_index_def test_start_index_def test_end_index_def

lemmas call_defs = emit_def torch_manual_seed_def random_seed_def np_random_seed_def
  pd_read_csv_def select_by_index_def TimeSeriesPreprocessor_def tsp_train_def
  tsp_preprocess_def ForecastDFDataset_def from_pretrained_def PatchTSTConfig_def
  PatchTSTForPrediction_def TrainingArguments_def EarlyStoppingCallback_def Trainer_def
  trainer_train_def trainer_evaluate_def trainer_predict_def predictions_0_shape_def

lemmas cell_defs = notebook_def direct_forecasting_example_def load_and_prepare_datasets_def
  testing_pretrained_def train_from_scratch_def fresh_kernel_def

lemmas run_defs = notebook_events_def notebook_calls_def notebook_vars_def
  notebook_scratch_vars_def

subsection \<open>The variables after a run\<close>

lemma notebook_vars_eq:
  "notebook_vars t p n =
     \<lparr>data = ReadCsv dataset_path [timestamp_column],
      train_data = SelectByIndex (ReadCsv dataset_path [timestamp_column]) id_columns
                     train_start_index (Some train_end_index),
      valid_data = SelectByIndex (ReadCsv dataset_path [timestamp_column]) id_columns
                     (Some valid_start_index) (Some valid_end_index),
      test_data = SelectByIndex (ReadCsv dataset_path [timestamp_column]) id_columns
                     (Some test_start_index) (Some test_end_index),
      tsp = \<lparr>tsp_timestamp_column = timestamp_column, tsp_id_columns = id_columns,
              tsp_target_columns = forecast_columns, tsp_scaling = True\<rparr>,
      train_dataset =
        \<lparr>ds_data = Preprocessed
                     \<lparr>tsp_timestamp_column = timestamp_column, tsp_id_columns = id_columns,
                      tsp_target_columns = forecast_columns, tsp_scaling = True\<rparr>
                     (Some (SelectByIndex (ReadCsv dataset_path [timestamp_column]) id_columns
                        train_start_index (Some train_end_index)))
                     (SelectByIndex (ReadCsv dataset_path [timestamp_column]) id_columns
                        train_start_index (Some train_end_index)),
         ds_id_columns = id_columns, ds_target_columns = forecast_columns,
         ds_context_length = context_length, ds_prediction_length = forecast_horizon\<rparr>,
      valid_dataset =
        \<lparr>ds_data = Preprocessed
                     \<lparr>tsp_timestamp_column = timestamp_column, tsp_id_columns = id_columns,
                      tsp_target_columns = forecast_columns, tsp_scaling = True\<rparr>
                     (Some (SelectByIndex (ReadCsv dataset_path [timestamp_column]) id_columns
                        train_start_index (Some train_end_index)))
                     (SelectByIndex (ReadCsv dataset_path [timestamp_column]) id_columns
                        (Some valid_start_index) (Some valid_end_index)),
         ds_id_columns = id_columns, ds_target_columns = forecast_columns,
         ds_context_length = context_length, ds_prediction_length = forecast_horizon\<rparr>,
      test_dataset =
        \<lparr>ds_data = Preprocessed
                     \<lparr>tsp_timestamp_column = timestamp_column, tsp_id_columns = id_columns,
                      tsp_target_columns = forecast_columns, tsp_scaling = True\<rparr>
                     (Some (SelectByIndex (ReadCsv dataset_path [timestamp_column]) id_columns
                        train_start_index (Some train_end_index)))
                     (SelectByIndex (ReadCsv dataset_path [timestamp_column]) id_columns
                        (Some test_start_index) (Some test_end_index)),
         ds_id_columns = id_columns, ds_target_columns = forecast_columns,
         ds_context_length = context_length, ds_prediction_length = forecast_horizon\<rparr>\<rparr>"
  by (simp add: run_defs cell_defs call_defs Let_def)

text \<open>The rows of the three splits, and the windows of the three datasets.\<close>

lemma frame_span_splits:
  "frame_span (train_data (notebook_vars t p n)) = Some (0, 8640)"
  "frame_span (valid_data (notebook_vars t p n)) = Some (8128, 11520)"
  "frame_span (test_data (notebook_vars t p n)) = Some (11008, 14400)"
  by (simp_all add: notebook_vars_eq [of t p n] index_span_def id_columns_def
      train_start_index_def train_end_index_def valid_start_index_def valid_end_index_def
      test_start_index_def test_end_index_def context_length_def)

lemma dataset_windows_splits:
  "dataset_windows (train_dataset (notebook_vars t p n)) = Some (forecast_windows 512 96 (0, 8640))"
  "dataset_windows (valid_dataset (notebook_vars t p n)) = Some (forecast_windows 512 96 (8128, 11520))"
  "dataset_windows (test_dataset (notebook_vars t p n)) = Some (forecast_windows 512 96 (11008, 14400))"
proof -
  note sp = frame_span_splits [of t p n]
  show "dataset_windows (train_dataset (notebook_vars t p n)) = Some (forecast_windows 512 96 (0, 8640))"
    using sp(1) by (simp add: dataset_windows_def notebook_vars_eq [of t p n] context_length_def forecast_horizon_def)
  show "dataset_windows (valid_dataset (notebook_vars t p n)) = Some (forecast_windows 512 96 (8128, 11520))"
    using sp(2) by (simp add: dataset_windows_def notebook_vars_eq [of t p n] context_length_def forecast_horizon_def)
  show "dataset_windows (test_dataset (notebook_vars t p n)) = Some (forecast_windows 512 96 (11008, 14400))"
    using sp(3) by (simp add: dataset_windows_def notebook_vars_eq [of t p n] context_length_def forecast_horizon_def)
qed

subsection \<open>Windows\<close>

text \<open>
  A span yields one window per start position; when at least one window fits, the targets
  of the windows together are the rows of the span after its first \<open>c\<close>.
\<close>

lemma length_forecast_windows:
  "length (forecast_windows c h sp) = nat (snd sp - fst sp - (c + h) + 1)"
  by (simp add: forecast_windows_def)

lemma nth_forecast_windows:
  assumes "k < length (forecast_windows c h sp)"
  shows "forecast_windows c h sp ! k =
           ((fst sp + int k, fst sp + int k + c),
            (fst sp + int k + c, fst sp + int k + c + h))"
    and "fst sp + int k + c + h \<le> snd sp"
  using assms by (auto simp: forecast_windows_def)

lemma target_rows_forecast_windows:
  assumes "0 < h" and "c + h \<le> hi - lo"
  shows "target_rows (forecast_windows c h (lo, hi)) = {lo + c ..< hi}"
proof (rule set_eqI)
  fix x :: int
  let ?n = "nat (hi - lo - (c + h) + 1)"
  have mem: "x \<in> target_rows (forecast_windows c h (lo, hi)) \<longleftrightarrow>
               (\<exists>k<?n. lo + int k + c \<le> x \<and> x < lo + int k + c + h)"
    by (auto simp: target_rows_def forecast_windows_def span_rows_def)
  show "x \<in> target_rows (forecast_windows c h (lo, hi)) \<longleftrightarrow> x \<in> {lo + c ..< hi}"
  proof
    assume "x \<in> target_rows (forecast_windows c h (lo, hi))"
    then obtain k where "k < ?n" "lo + int k + c \<le> x" "x < lo + int k + c + h"
      using mem by blast
    then show "x \<in> {lo + c ..< hi}" by auto
  next
    assume x: "x \<in> {lo + c ..< hi}"
    define k where "k = nat (x - lo - c - h + 1)"
    have "k < ?n" using x assms by (auto simp: k_def)
    moreover have "lo + int k + c \<le> x" using x assms by (auto simp: k_def)
    moreover have "x < lo + int k + c + h" using x assms by (auto simp: k_def)
    ultimately show "x \<in> target_rows (forecast_windows c h (lo, hi))"
      using mem by blast
  qed
qed

subsection \<open>Splitting\<close>

text \<open>
  Claim C1. The split indices are: train \<open>None\<close> (the beginning) to \<open>12 * 30 * 24 = 8640\<close>,
  validation \<open>8640 - 512 = 8128\<close> to \<open>8640 + 4 * 30 * 24 = 11520\<close>, test
  \<open>11520 - 512 = 11008\<close> to \<open>11520 + 4 * 30 * 24 = 14400\<close>. Each later start is the
  previous end minus \<open>context_length\<close>, so each later range shares exactly
  \<open>context_length = 512\<close> positions with the one before it, and these values are the
  arguments of the three \<^verbatim>\<open>select_by_index\<close> calls, all on the loaded frame.
\<close>

theorem split_index_arithmetic:
  "train_start_index = None \<and> train_end_index = 8640
   \<and> valid_start_index = 8128 \<and> valid_end_index = 11520
   \<and> test_start_index = 11008 \<and> test_end_index = 14400
   \<and> context_length = 512
   \<and> valid_start_index = train_end_index - context_length
   \<and> test_start_index = valid_end_index - context_length
   \<and> index_rows train_start_index train_end_index = {0..<8640}
   \<and> index_rows (Some valid_start_index) valid_end_index = {8128..<11520}
   \<and> index_rows (Some test_start_index) test_end_index = {11008..<14400}
   \<and> index_rows train_start_index train_end_index
         \<inter> index_rows (Some valid_start_index) valid_end_index = {8128..<8640}
   \<and> index_rows (Some valid_start_index) valid_end_index
         \<inter> index_rows (Some test_start_index) test_end_index = {11008..<11520}
   \<and> card (index_rows train_start_index train_end_index
         \<inter> index_rows (Some valid_start_index) valid_end_index) = nat context_length
   \<and> card (index_rows (Some valid_start_index) valid_end_index
         \<inter> index_rows (Some test_start_index) test_end_index) = nat context_length
   \<and> List.map_filter select_args (notebook_calls t p n) =
        [(ReadCsv dataset_path [timestamp_column], id_columns, train_start_index, Some train_end_index),
         (ReadCsv dataset_path [timestamp_column], id_columns, Some valid_start_index, Some valid_end_index),
         (ReadCsv dataset_path [timestamp_column], id_columns, Some test_start_index, Some test_end_index)]"
proof -
  have calls: "List.map_filter select_args (notebook_calls t p n) =
        [(ReadCsv dataset_path [timestamp_column], id_columns, train_start_index, Some train_end_index),
         (ReadCsv dataset_path [timestamp_column], id_columns, Some valid_start_index, Some valid_end_index),
         (ReadCsv dataset_path [timestamp_column], id_columns, Some test_start_index, Some test_end_index)]"
    by (simp add: run_defs cell_defs call_defs Let_def)
  have arith: "train_start_index = None \<and> train_end_index = 8640
   \<and> valid_start_index = 8128 \<and> valid_end_index = 11520
   \<and> test_start_index = 11008 \<and> test_end_index = 14400
   \<and> context_length = 512"
    by (simp add: param_defs)
  have rows: "index_rows None 8640 = {0..<8640}"
    "index_rows (Some 8128) 11520 = {8128..<11520}"
    "index_rows (Some 11008) 14400 = {11008..<14400}"
    by (simp_all add: index_rows_def index_span_def span_rows_def)
  show ?thesis
    using calls by (simp add: arith rows)
qed


subsection \<open>Prediction output\<close>

text \<open>
  Claim C2. \<^verbatim>\<open>trainer.predict\<close> is called with the trainer of the from-scratch model
  and the test dataset; the shape of its first prediction array is \<open>(2785, 96, 7)\<close>, as the
  notebook's stored output says: one forecast for each of the
  \<open>(test_end_index - test_start_index) - (context_length + forecast_horizon) + 1 = 2785\<close>
  windows of the test slice, \<open>forecast_horizon = 96\<close> steps, and
  \<open>len(forecast_columns) = 7\<close> channels.
\<close>

theorem predict_output_shape:
  fixes t p n :: nat
  defines "v \<equiv> notebook_vars t p n" and "s \<equiv> notebook_scratch_vars t p n"
  shows "List.map_filter predicted (notebook_calls t p n) = [(trainer s, test_dataset v)]
   \<and> predict_output s = (trainer s, test_dataset v)
   \<and> List.map_filter inspected (notebook_calls t p n) =
        [predictions_shape (trainer s) (test_dataset v)]
   \<and> predictions_shape (trainer s) (test_dataset v) = Some predictions_0_shape_output
   \<and> predictions_0_shape_output = (2785, 96, 7)
   \<and> predictions_0_shape_output =
        ((test_end_index - test_start_index) - (context_length + forecast_horizon) + 1,
         forecast_horizon, int (length forecast_columns))
   \<and> test_end_index - test_start_index = 3392
   \<and> context_length + forecast_horizon = 608
   \<and> map_option length (dataset_windows (test_dataset v)) = Some 2785"
proof -
  have calls: "List.map_filter predicted (notebook_calls t p n) = [(trainer s, test_dataset v)]"
    "predict_output s = (trainer s, test_dataset v)"
    "List.map_filter inspected (notebook_calls t p n) =
        [predictions_shape (trainer s) (test_dataset v)]"
    unfolding v_def s_def by (simp_all add: run_defs cell_defs call_defs Let_def)
  have model: "tr_model (trainer s) = FromConfig (config s) (Seeded SEED)"
    "cfg_prediction_length (config s) = forecast_horizon"
    "cfg_num_input_channels (config s) = int (length forecast_columns)"
    unfolding s_def by (simp_all add: run_defs cell_defs call_defs Let_def)
  have windows: "dataset_windows (test_dataset v) = Some (forecast_windows 512 96 (11008, 14400))"
    unfolding v_def by (rule dataset_windows_splits)
  have shape: "predictions_shape (trainer s) (test_dataset v) = Some predictions_0_shape_output"
    by (simp add: predictions_shape_def model windows length_forecast_windows
        predictions_0_shape_output_def forecast_horizon_def forecast_columns_def)
  have arith: "predictions_0_shape_output = (2785, 96, 7)"
    "predictions_0_shape_output =
        ((test_end_index - test_start_index) - (context_length + forecast_horizon) + 1,
         forecast_horizon, int (length forecast_columns))"
    "test_end_index - test_start_index = 3392"
    "context_length + forecast_horizon = 608"
    by (simp_all add: predictions_0_shape_output_def param_defs)
  have count: "map_option length (dataset_windows (test_dataset v)) = Some 2785"
    by (simp add: windows length_forecast_windows)
  show ?thesis
    by (intro conjI) (fact calls shape arith count)+
qed

subsection \<open>Preprocessing\<close>

text \<open>
  Claim C3. The preprocessor is fitted once, on \<open>train_data\<close>, and that call comes before
  every \<^verbatim>\<open>tsp.preprocess\<close>; each of the three datasets is built from the output of
  \<^verbatim>\<open>tsp.preprocess\<close> on its split, produced by the preprocessor (with scaling on) in
  its state fitted on \<open>train_data\<close>; no dataset is built from a raw frame.
\<close>

theorem preprocessor_fitted_before_use:
  fixes t p n :: nat
  defines "v \<equiv> notebook_vars t p n"
  shows "List.map_filter tsp_step (notebook_calls t p n) =
       [TspTrain (train_data v),
        TspPreprocess (train_data v), NewForecastDFDataset (train_dataset v),
        TspPreprocess (valid_data v), NewForecastDFDataset (valid_dataset v),
        TspPreprocess (test_data v), NewForecastDFDataset (test_dataset v)]
   \<and> ds_data (train_dataset v) = Preprocessed (tsp v) (Some (train_data v)) (train_data v)
   \<and> ds_data (valid_dataset v) = Preprocessed (tsp v) (Some (train_data v)) (valid_data v)
   \<and> ds_data (test_dataset v) = Preprocessed (tsp v) (Some (train_data v)) (test_data v)
   \<and> tsp_scaling (tsp v) = True
   \<and> train_data v =
        SelectByIndex (data v) id_columns train_start_index (Some train_end_index)
   \<and> valid_data v =
        SelectByIndex (data v) id_columns (Some valid_start_index) (Some valid_end_index)
   \<and> test_data v =
        SelectByIndex (data v) id_columns (Some test_start_index) (Some test_end_index)
   \<and> data v = ReadCsv dataset_path [timestamp_column]
   \<and> tsp_fitted (snd (notebook (fresh_kernel t p n))) = Some (train_data v)"
  unfolding v_def notebook_vars_eq by (simp add: run_defs cell_defs call_defs Let_def)

subsection \<open>Order of the steps\<close>

text \<open>
  Claim C4. Along each path (the two common parts followed by the pretrained part, or by
  the from-scratch part), the steps occur in the order read CSV, split indices, instantiate
  the preprocessor, build the dataset wrappers, instantiate the model, configure the
  training loop, train (from-scratch path only), evaluate, inspect output shapes
  (from-scratch path); no step comes before one listed earlier. The four parts run in the
  order of their headings.
\<close>

theorem steps_in_order:
  "path_steps TestingPretrained (notebook_events t p n) =
     [ReadCSV, SplitIndices, SplitIndices, SplitIndices, InstantiatePreprocessor,
      BuildDatasetWrappers, BuildDatasetWrappers, BuildDatasetWrappers,
      InstantiateModel, ConfigureTrainingLoop, ConfigureTrainingLoop, Evaluate]
   \<and> path_steps TrainFromScratch (notebook_events t p n) =
     [ReadCSV, SplitIndices, SplitIndices, SplitIndices, InstantiatePreprocessor,
      BuildDatasetWrappers, BuildDatasetWrappers, BuildDatasetWrappers,
      InstantiateModel, ConfigureTrainingLoop, ConfigureTrainingLoop, Train, Evaluate,
      InspectOutputShapes]
   \<and> sorted (map step_rank (path_steps TestingPretrained (notebook_events t p n)))
   \<and> sorted (map step_rank (path_steps TrainFromScratch (notebook_events t p n)))
   \<and> remdups_adj (map fst (notebook_events t p n)) =
     [DirectForecastingExample, LoadAndPrepareDatasets, TestingPretrained, TrainFromScratch]"
proof -
  have a: "path_steps TestingPretrained (notebook_events t p n) =
     [ReadCSV, SplitIndices, SplitIndices, SplitIndices, InstantiatePreprocessor,
      BuildDatasetWrappers, BuildDatasetWrappers, BuildDatasetWrappers,
      InstantiateModel, ConfigureTrainingLoop, ConfigureTrainingLoop, Evaluate]"
    by (simp add: path_steps_def on_path_def run_defs cell_defs call_defs Let_def)
  have b: "path_steps TrainFromScratch (notebook_events t p n) =
     [ReadCSV, SplitIndices, SplitIndices, SplitIndices, InstantiatePreprocessor,
      BuildDatasetWrappers, BuildDatasetWrappers, BuildDatasetWrappers,
      InstantiateModel, ConfigureTrainingLoop, ConfigureTrainingLoop, Train, Evaluate,
      InspectOutputShapes]"
    by (simp add: path_steps_def on_path_def run_defs cell_defs call_defs Let_def)
  have c: "remdups_adj (map fst (notebook_events t p n)) =
     [DirectForecastingExample, LoadAndPrepareDatasets, TestingPretrained, TrainFromScratch]"
    by (simp add: run_defs cell_defs call_defs Let_def)
  show ?thesis
    by (simp add: a b c)
qed


subsection \<open>Windowing parameters\<close>

lemma notebook_scratch_config:
  "config (notebook_scratch_vars t p n) =
     \<lparr>cfg_do_mask_input = False,
      cfg_context_length = context_length,
      cfg_patch_length = patch_length,
      cfg_num_input_channels = int (length forecast_columns),
      cfg_patch_stride = patch_length,
      cfg_prediction_length = forecast_horizon,
      cfg_d_model = 128,
      cfg_num_attention_heads = 16,
      cfg_num_hidden_layers = 3,
      cfg_ffn_dim = 512,
      cfg_dropout = PyFloat 2 (- 1),
      cfg_head_dropout = PyFloat 2 (- 1),
      cfg_pooling_type = PyNone,
      cfg_channel_attention = False,
      cfg_scaling = PyStr ''std'',
      cfg_loss = ''mse'',
      cfg_pre_norm = True,
      cfg_norm_type = ''batchnorm''\<rparr>"
  by (simp add: run_defs cell_defs call_defs Let_def)

text \<open>
  Claim C6. The three \<^verbatim>\<open>ForecastDFDataset\<close> constructions and the from-scratch
  \<^verbatim>\<open>PatchTSTConfig\<close> agree: context length 512, prediction length 96 (the forecast
  horizon), the 7 forecast columns as targets (and as the number of input channels), no id
  columns; so the samples of the three datasets have the shape the model takes and
  predicts.
\<close>

theorem windowing_parameters_agree:
  fixes t p n :: nat
  defines "c \<equiv> config (notebook_scratch_vars t p n)"
  shows "map (\<lambda>d. (ds_context_length d, ds_prediction_length d, ds_target_columns d, ds_id_columns d))
       (List.map_filter built_dataset (notebook_calls t p n)) =
       [(512, 96, forecast_columns, []), (512, 96, forecast_columns, []),
        (512, 96, forecast_columns, [])]
   \<and> List.map_filter built_config (notebook_calls t p n) = [c]
   \<and> List.map_filter built_model (notebook_calls t p n) = [(c, Seeded SEED)]
   \<and> cfg_context_length c = 512 \<and> cfg_prediction_length c = 96
   \<and> cfg_num_input_channels c = 7
   \<and> context_length = 512 \<and> forecast_horizon = 96 \<and> length forecast_columns = 7
   \<and> id_columns = []
   \<and> map sample_shape (List.map_filter built_dataset (notebook_calls t p n)) =
       [model_shape c, model_shape c, model_shape c]
   \<and> model_shape c = ((512, 7), (96, 7))"
proof -
  have ds: "List.map_filter built_dataset (notebook_calls t p n) =
      [train_dataset (notebook_vars t p n), valid_dataset (notebook_vars t p n),
       test_dataset (notebook_vars t p n)]"
    unfolding notebook_vars_eq by (simp add: run_defs cell_defs call_defs Let_def)
  have cf: "List.map_filter built_config (notebook_calls t p n) = [c]"
    "List.map_filter built_model (notebook_calls t p n) = [(c, Seeded SEED)]"
    unfolding c_def notebook_scratch_config
    by (simp_all add: run_defs cell_defs call_defs Let_def)
  have par: "context_length = 512" "forecast_horizon = 96" "length forecast_columns = 7"
    "id_columns = []"
    by (simp_all add: param_defs)
  have c: "cfg_context_length c = 512" "cfg_prediction_length c = 96"
    "cfg_num_input_channels c = 7" "model_shape c = ((512, 7), (96, 7))"
    unfolding c_def notebook_scratch_config by (simp_all add: model_shape_def par)
  show ?thesis
    unfolding ds cf by (simp add: c par notebook_vars_eq sample_shape_def)
qed

subsection \<open>Where the classes come from\<close>


subsection \<open>Seeding\<close>

text \<open>
  A run does not depend on the generator states of the fresh kernel. Without the seeds it
  would: run on an unseeded kernel, the from-scratch part builds its model from the state
  torch's generator happens to have.
\<close>

lemma notebook_run_independent:
  "notebook (fresh_kernel t p n) = notebook (fresh_kernel 0 0 0)"
  by (simp add: cell_defs call_defs Let_def)

lemma unseeded_model_depends_on_generator:
  "model (fst (train_from_scratch v (fresh_kernel t p n))) =
     FromConfig (config (fst (train_from_scratch v (fresh_kernel t p n)))) (Entropy t)"
  by (simp add: train_from_scratch_def fresh_kernel_def call_defs Let_def)

lemma unseeded_runs_differ:
  assumes "t \<noteq> t'"
  shows "model (fst (train_from_scratch v (fresh_kernel t p n))) \<noteq>
         model (fst (train_from_scratch v (fresh_kernel t' p' n')))"
  using assms by (simp add: unseeded_model_depends_on_generator)

text \<open>
  Claim C8. The three generators are seeded with \<open>SEED = 42\<close>, once each, before any data
  is loaded and before any dataset or model is built; every call that draws pseudo-random
  numbers starts from generators seeded with 42; and two runs of the notebook from fresh
  kernels, whatever state their generators start in, give the same log, the same variables
  and the same final state.
\<close>

theorem seeded_before_loading_and_runs_agree:
  "filter seeding (notebook_calls t p n) =
     [TorchManualSeed SEED, RandomSeed SEED, NumpyRandomSeed SEED]
   \<and> SEED = 42
   \<and> filter seeding (takeWhile (\<lambda>e. \<not> loads_or_builds e) (notebook_calls t p n)) =
     [TorchManualSeed SEED, RandomSeed SEED, NumpyRandomSeed SEED]
   \<and> torch_rng (snd (notebook (fresh_kernel t p n))) = Seeded 42
   \<and> python_rng (snd (notebook (fresh_kernel t p n))) = Seeded 42
   \<and> numpy_rng (snd (notebook (fresh_kernel t p n))) = Seeded 42
   \<and> List.map_filter drawn_from (notebook_calls t p n) =
     [[Seeded 42], [Seeded 42, Seeded 42, Seeded 42]]
   \<and> notebook (fresh_kernel t p n) = notebook (fresh_kernel t' p' n')"
proof -
  have a: "filter seeding (notebook_calls t p n) =
     [TorchManualSeed SEED, RandomSeed SEED, NumpyRandomSeed SEED]"
    by (simp add: run_defs cell_defs call_defs Let_def)
  have b: "filter seeding (takeWhile (\<lambda>e. \<not> loads_or_builds e) (notebook_calls t p n)) =
     [TorchManualSeed SEED, RandomSeed SEED, NumpyRandomSeed SEED]"
    by (simp add: run_defs cell_defs call_defs Let_def)
  have c: "torch_rng (snd (notebook (fresh_kernel t p n))) = Seeded 42"
    "python_rng (snd (notebook (fresh_kernel t p n))) = Seeded 42"
    "numpy_rng (snd (notebook (fresh_kernel t p n))) = Seeded 42"
    by (simp_all add: cell_defs call_defs Let_def SEED_def)
  have d: "List.map_filter drawn_from (notebook_calls t p n) =
     [[Seeded 42], [Seeded 42, Seeded 42, Seeded 42]]"
    by (simp add: run_defs cell_defs call_defs Let_def SEED_def)
  have e: "notebook (fresh_kernel t p n) = notebook (fresh_kernel t' p' n')"
    using notebook_run_independent [of t p n] notebook_run_independent [of t' p' n']
    by (rule trans_sym)
  have s: "SEED = 42" by (simp add: SEED_def)
  show ?thesis
    by (intro conjI) (fact a b c d e s)+
qed

subsection \<open>What the scaler was fitted on\<close>

text \<open>
  Claim C9, as amended. The scaler is fitted on \<open>train_data\<close> only: rows \<open>[0, 8640)\<close>,
  which is the \<open>n_samples_seen_ = 8640 = train_end_index\<close> of the stored output, over the
  7 forecast columns. None of these rows is a row of the test slice, and none is a forecast
  target of the validation or test dataset (their targets are rows \<open>[8640, 11520)\<close> and
  \<open>[11520, 14400)\<close>); the rows \<open>[8128, 8640)\<close> are shared with the validation slice,
  whose first context they are.
\<close>

theorem scaler_fitted_on_training_rows:
  fixes t p n :: nat
  defines "v \<equiv> notebook_vars t p n"
  shows "List.map_filter fitted_frame (notebook_calls t p n) = [train_data v]
   \<and> frame_rows (train_data v) = Some {0..<8640}
   \<and> frame_length (train_data v) = Some (n_samples_seen scaler_dict_0)
   \<and> n_samples_seen scaler_dict_0 = 8640
   \<and> train_end_index = 8640
   \<and> n_features_in scaler_dict_0 = 7
   \<and> n_features_in scaler_dict_0 = int (length forecast_columns)
   \<and> feature_names_in scaler_dict_0 = forecast_columns
   \<and> tsp_target_columns (tsp v) = forecast_columns
   \<and> shared_rows (train_data v) (test_data v) = Some {}
   \<and> shared_rows (train_data v) (valid_data v) = Some {8128..<8640}
   \<and> map_option target_rows (dataset_windows (valid_dataset v)) = Some {8640..<11520}
   \<and> map_option target_rows (dataset_windows (test_dataset v)) = Some {11520..<14400}
   \<and> fitted_targets (train_data v) (valid_dataset v) = Some {}
   \<and> fitted_targets (train_data v) (test_dataset v) = Some {}"
proof -
  have fit: "List.map_filter fitted_frame (notebook_calls t p n) = [train_data v]"
    unfolding v_def notebook_vars_eq by (simp add: run_defs cell_defs call_defs Let_def)
  note sp = frame_span_splits [of t p n, folded v_def]
  note ws = dataset_windows_splits [of t p n, folded v_def]
  have rows: "frame_rows (train_data v) = Some {0..<8640}"
    "frame_rows (valid_data v) = Some {8128..<11520}"
    "frame_rows (test_data v) = Some {11008..<14400}"
    by (simp_all add: frame_rows_def sp span_rows_def)
  have len: "frame_length (train_data v) = Some (n_samples_seen scaler_dict_0)"
    by (simp add: frame_length_def sp scaler_dict_0_def)
  have out: "n_samples_seen scaler_dict_0 = 8640" "train_end_index = 8640"
    "n_features_in scaler_dict_0 = 7"
    "n_features_in scaler_dict_0 = int (length forecast_columns)"
    "feature_names_in scaler_dict_0 = forecast_columns"
    by (simp_all add: scaler_dict_0_def train_end_index_def forecast_columns_def)
  have cols: "tsp_target_columns (tsp v) = forecast_columns"
    unfolding v_def notebook_vars_eq by simp
  have sh: "shared_rows (train_data v) (test_data v) = Some {}"
    "shared_rows (train_data v) (valid_data v) = Some {8128..<8640}"
    by (simp_all add: shared_rows_def rows)
  have tv: "target_rows (forecast_windows 512 96 (8128, 11520)) = {8640..<11520}"
    using target_rows_forecast_windows [of 96 512 11520 8128] by simp
  have tt: "target_rows (forecast_windows 512 96 (11008, 14400)) = {11520..<14400}"
    using target_rows_forecast_windows [of 96 512 14400 11008] by simp
  have tg: "map_option target_rows (dataset_windows (valid_dataset v)) = Some {8640..<11520}"
    "map_option target_rows (dataset_windows (test_dataset v)) = Some {11520..<14400}"
    by (simp_all add: ws tv tt)
  have ft: "fitted_targets (train_data v) (valid_dataset v) = Some {}"
    "fitted_targets (train_data v) (test_dataset v) = Some {}"
    by (simp_all add: fitted_targets_def rows ws tv tt)
  show ?thesis
    by (intro conjI) (fact fit rows len out cols sh tg ft)+
qed

text \<open>
  Claim C9 as stated fails: row 8128 is a row of the validation slice and one of the rows
  the scaler was fitted on.
\<close>

theorem scaler_saw_validation_rows_counterexample:
  "List.map_filter fitted_frame (notebook_calls 0 0 0) = [train_data (notebook_vars 0 0 0)]
   \<and> in_frame 8128 (train_data (notebook_vars 0 0 0))
   \<and> in_frame 8128 (valid_data (notebook_vars 0 0 0))"
proof -
  have fit: "List.map_filter fitted_frame (notebook_calls 0 0 0) = [train_data (notebook_vars 0 0 0)]"
    unfolding notebook_vars_eq by (simp add: run_defs cell_defs call_defs Let_def)
  show ?thesis
    by (simp add: fit in_frame_def frame_span_splits)
qed

end
